theory Spec2Isabelle
  imports Complex_Main
begin

section \<open>Values handed to the plotting helpers\<close>

text \<open>
  \<^verbatim>\<open>tools/visual.py\<close> receives sequences of numbers. What the code can observe of
  such a value is whether it is a numerical array (which has the attributes
  \<^verbatim>\<open>.real\<close> and \<^verbatim>\<open>.imag\<close>) or a plain Python list (which has neither), and for an
  array whether its entries are real or complex. Python floats are idealised as
  mathematical reals.
\<close>

datatype pyval =
    NdReal "real list"
  | NdComplex "complex list"
  | PyList "complex list"

datatype exn = AttributeError | ValueError | UserError string

fun elems :: "pyval \<Rightarrow> complex list" where
  "elems (NdReal xs) = map complex_of_real xs"
| "elems (NdComplex zs) = zs"
| "elems (PyList zs) = zs"

definition real_parts :: "pyval \<Rightarrow> real list" where
  "real_parts v = map Re (elems v)"

definition imag_parts :: "pyval \<Rightarrow> real list" where
  "imag_parts v = map Im (elems v)"

definition len :: "pyval \<Rightarrow> nat" where
  "len v = length (elems v)"

text \<open>Attribute access \<^verbatim>\<open>v.real\<close> and \<^verbatim>\<open>v.imag\<close>: a list has no such attribute.\<close>

fun attr_real :: "pyval \<Rightarrow> exn + pyval" where
  "attr_real (NdReal xs) = Inr (NdReal xs)"
| "attr_real (NdComplex zs) = Inr (NdReal (map Re zs))"
| "attr_real (PyList zs) = Inl AttributeError"

fun attr_imag :: "pyval \<Rightarrow> exn + pyval" where
  "attr_imag (NdReal xs) = Inr (NdReal (map (\<lambda>x. 0) xs))"
| "attr_imag (NdComplex zs) = Inr (NdReal (map Im zs))"
| "attr_imag (PyList zs) = Inl AttributeError"

fun has_parts :: "pyval \<Rightarrow> bool" where
  "has_parts (PyList zs) = False"
| "has_parts v = True"

section \<open>Drawing surfaces\<close>

text \<open>
  Keyword arguments are passed to the plotting library as they are; the model keeps
  them as an association list in the order the call site writes them.
\<close>

datatype kwval = KStr string | KNum real

type_synonym kwargs = "(string \<times> kwval) list"

record line2d =
  xdata :: pyval
  ydata :: pyval
  style :: kwargs

record hline =
  hy :: real
  hxmin :: real
  hxmax :: real
  hstyle :: kwargs

datatype aspect_mode = Auto | Equal

record axes =
  lines :: "line2d list"
  collections :: "hline list"
  xlabel :: string
  ylabel :: string
  aspect :: aspect_mode

definition new_axes :: axes where
  "new_axes = \<lparr>lines = [], collections = [], xlabel = [], ylabel = [], aspect = Auto\<rparr>"

text \<open>
  The interpreter state the two functions can touch: the axes objects (by handle), the
  number of axes and figures created so far, the module-level \<^verbatim>\<open>colors\<close> list, and a
  log of the arguments with which the caller's function \<^verbatim>\<open>f\<close> has been invoked.
\<close>

record world =
  heap :: "nat \<Rightarrow> axes"
  nax :: nat
  nfig :: nat
  colors :: "string list"
  fcalls :: "pyval list"

type_synonym result = "exn option \<times> world"

definition upd_axes :: "nat \<Rightarrow> (axes \<Rightarrow> axes) \<Rightarrow> world \<Rightarrow> world" where
  "upd_axes a g w = w\<lparr>heap := (heap w)(a := g (heap w a))\<rparr>"

text \<open>\<^verbatim>\<open>plt.subplots()\<close>: one new figure holding one new, empty axes.\<close>

definition plt_subplots :: "world \<Rightarrow> nat \<times> world" where
  "plt_subplots w =
     (nax w, w\<lparr>heap := (heap w)(nax w := new_axes), nax := nax w + 1, nfig := nfig w + 1\<rparr>)"

text \<open>\<^verbatim>\<open>plt.subplots(ncols=2, figsize=(10, 4))\<close>: one new figure holding two new axes.\<close>

definition plt_subplots2 :: "world \<Rightarrow> (nat \<times> nat) \<times> world" where
  "plt_subplots2 w =
     ((nax w, nax w + 1),
      w\<lparr>heap := (heap w)(nax w := new_axes, nax w + 1 := new_axes),
        nax := nax w + 2, nfig := nfig w + 1\<rparr>)"

text \<open>
  \<^verbatim>\<open>ax.plot(x, y, **kw)\<close> appends one line to the axes; the library raises ValueError
  when \<^verbatim>\<open>x\<close> and \<^verbatim>\<open>y\<close> differ in length. \<open>ax_plot\<close> is the call with style options
  the library accepts: \<^verbatim>\<open>plot_homotopy\<close> passes none, or its fixed \<^verbatim>\<open>linewidth\<close>,
  \<^verbatim>\<open>color\<close> and \<^verbatim>\<open>linestyle\<close>.
\<close>

definition ax_plot :: "nat \<Rightarrow> pyval \<Rightarrow> pyval \<Rightarrow> kwargs \<Rightarrow> world \<Rightarrow> result" where
  "ax_plot a x y kw w =
     (if len x \<noteq> len y then (Some ValueError, w)
      else (None, upd_axes a (\<lambda>ax. ax\<lparr>lines := lines ax @ [\<lparr>xdata = x, ydata = y, style = kw\<rparr>]\<rparr>) w))"

text \<open>
  The same call with style options the caller chose. The library builds the line from
  the data first and then applies the options to it, raising on a keyword it does not
  know (AttributeError) or a value it cannot use (ValueError); a call that raises adds
  nothing to the axes. Which options the library accepts is its own vocabulary:
  \<open>style_check\<close> is that judgement, \<open>None\<close> for options it accepts and the exception it
  raises otherwise.
\<close>

definition ax_plot_kw ::
  "(kwargs \<Rightarrow> exn option) \<Rightarrow> nat \<Rightarrow> pyval \<Rightarrow> pyval \<Rightarrow> kwargs \<Rightarrow> world \<Rightarrow> result" where
  "ax_plot_kw style_check a x y kw w =
     (if len x \<noteq> len y then (Some ValueError, w)
      else (case style_check kw of
              Some e \<Rightarrow> (Some e, w)
            | None \<Rightarrow> ax_plot a x y kw w))"

text \<open>\<^verbatim>\<open>ax.hlines(y, xmin, xmax, **kw)\<close> with a scalar \<^verbatim>\<open>y\<close> adds one horizontal line.\<close>

definition ax_hlines :: "nat \<Rightarrow> real \<Rightarrow> real \<times> real \<Rightarrow> kwargs \<Rightarrow> world \<Rightarrow> result" where
  "ax_hlines a y xl kw w =
     (None, upd_axes a (\<lambda>ax. ax\<lparr>collections := collections ax @
        [\<lparr>hy = y, hxmin = fst xl, hxmax = snd xl, hstyle = kw\<rparr>]\<rparr>) w)"

definition ax_set_aspect :: "nat \<Rightarrow> aspect_mode \<Rightarrow> world \<Rightarrow> world" where
  "ax_set_aspect a m w = upd_axes a (\<lambda>ax. ax\<lparr>aspect := m\<rparr>) w"

definition ax_set_xlabel :: "nat \<Rightarrow> string \<Rightarrow> world \<Rightarrow> world" where
  "ax_set_xlabel a s w = upd_axes a (\<lambda>ax. ax\<lparr>xlabel := s\<rparr>) w"

definition ax_set_ylabel :: "nat \<Rightarrow> string \<Rightarrow> world \<Rightarrow> world" where
  "ax_set_ylabel a s w = upd_axes a (\<lambda>ax. ax\<lparr>ylabel := s\<rparr>) w"

section \<open>The sample grid\<close>

text \<open>
  \<^verbatim>\<open>np.linspace(x0, x1, N)\<close> with the library's defaults (endpoint included): a negative
  count is rejected; otherwise the points are \<^verbatim>\<open>i * step + x0\<close> with
  \<^verbatim>\<open>step = (x1 - x0) / (N - 1)\<close>, the last one overwritten by \<^verbatim>\<open>x1\<close> when \<^verbatim>\<open>N > 1\<close>;
  with \<^verbatim>\<open>N = 1\<close> there is no step and the only point is \<^verbatim>\<open>0 * (x1 - x0) + x0\<close>.
\<close>

definition linspace_pts :: "real \<Rightarrow> real \<Rightarrow> nat \<Rightarrow> real list" where
  "linspace_pts x0 x1 n =
     (let dv = n - 1;
          delta = x1 - x0;
          y = (if dv > 0 then map (\<lambda>i. real i * (delta / real dv) + x0) [0..<n]
               else map (\<lambda>i. real i * delta + x0) [0..<n])
      in if n > 1 then y[n - 1 := x1] else y)"

definition linspace :: "real \<Rightarrow> real \<Rightarrow> int \<Rightarrow> exn + pyval" where
  "linspace x0 x1 N =
     (if N < 0 then Inl ValueError else Inr (NdReal (linspace_pts x0 x1 (nat N))))"

section \<open>plot\<close>

text \<open>
  \<^verbatim>\<open>def plot(f, x0, x1, N=100, ax=None, zero=None, **kwargs)\<close>.
  The caller's \<^verbatim>\<open>f\<close> is a function on the whole grid that returns a value or raises;
  \<^verbatim>\<open>get_xlim\<close> is the plotting library's computation of an axes' current x-limits, and
  \<open>style_check\<close> its judgement of the caller's style options.
\<close>

definition zero_style :: kwargs where
  "zero_style = [(''color'', KStr ''k''), (''linestyle'', KStr ''--''),
                 (''linewidth'', KNum 1), (''zorder'', KNum (- 1))]"

text \<open>Lines 14 and 15: the surface drawn on, created when the caller gives none.\<close>

definition plot_ax :: "nat option \<Rightarrow> world \<Rightarrow> nat \<times> world" where
  "plot_ax ax w = (case ax of None \<Rightarrow> plt_subplots w | Some a \<Rightarrow> (a, w))"

definition plot ::
  "(axes \<Rightarrow> real \<times> real) \<Rightarrow> (kwargs \<Rightarrow> exn option) \<Rightarrow> (pyval \<Rightarrow> exn + pyval) \<Rightarrow>
   real \<Rightarrow> real \<Rightarrow> int \<Rightarrow> nat option \<Rightarrow> real option \<Rightarrow> kwargs \<Rightarrow> world \<Rightarrow> result" where
  "plot get_xlim style_check f x0 x1 N ax zero kw w =
     (case plot_ax ax w of (a, w1) \<Rightarrow>
      (case linspace x0 x1 N of
         Inl e \<Rightarrow> (Some e, w1)
       | Inr x \<Rightarrow>
          (case f x of
             Inl e \<Rightarrow> (Some e, w1\<lparr>fcalls := fcalls w1 @ [x]\<rparr>)
           | Inr y \<Rightarrow>
              (case ax_plot_kw style_check a x y kw (w1\<lparr>fcalls := fcalls w1 @ [x]\<rparr>) of
                 (Some e, w2) \<Rightarrow> (Some e, w2)
               | (None, w2) \<Rightarrow>
                  (case zero of
                     None \<Rightarrow> (None, w2)
                   | Some z \<Rightarrow> ax_hlines a z (get_xlim (heap w2 a)) zero_style w2)))))"

section \<open>plot_homotopy\<close>

definition ref_style :: kwargs where
  "ref_style = [(''linewidth'', KNum 1), (''color'', KStr ''k''), (''linestyle'', KStr ''--'')]"

text \<open>Lines 23 and 24: the pair of panels, created when the caller gives none.\<close>

definition homotopy_axs :: "(nat \<times> nat) option \<Rightarrow> world \<Rightarrow> (nat \<times> nat) \<times> world" where
  "homotopy_axs axs w = (case axs of None \<Rightarrow> plt_subplots2 w | Some p \<Rightarrow> (p, w))"

text \<open>Lines 26 to 29: an optional reference curve against the parameter path as given.\<close>

definition draw_ref :: "nat \<Rightarrow> pyval option \<Rightarrow> pyval \<Rightarrow> world \<Rightarrow> result" where
  "draw_ref a zr ppath w =
     (case zr of None \<Rightarrow> (None, w) | Some r \<Rightarrow> ax_plot a r ppath ref_style w)"

text \<open>
  Lines 31 to 33: the loop over the solution paths. Arguments are evaluated left to
  right, so \<^verbatim>\<open>xp.real\<close> is read before \<^verbatim>\<open>ppath.real\<close>, and both before the call.
\<close>

fun draw_paths :: "nat \<times> nat \<Rightarrow> pyval \<Rightarrow> pyval list \<Rightarrow> world \<Rightarrow> result" where
  "draw_paths p ppath [] w = (None, w)"
| "draw_paths p ppath (xp # xps) w =
     (case attr_real xp of
        Inl e \<Rightarrow> (Some e, w)
      | Inr xr \<Rightarrow>
         (case attr_real ppath of
            Inl e \<Rightarrow> (Some e, w)
          | Inr pr \<Rightarrow>
             (case ax_plot (fst p) xr pr [] w of
                (Some e, w1) \<Rightarrow> (Some e, w1)
              | (None, w1) \<Rightarrow>
                 (case attr_imag xp of
                    Inl e \<Rightarrow> (Some e, w1)
                  | Inr xi \<Rightarrow>
                     (case attr_real ppath of
                        Inl e \<Rightarrow> (Some e, w1)
                      | Inr pr' \<Rightarrow>
                         (case ax_plot (snd p) xi pr' [] w1 of
                            (Some e, w2) \<Rightarrow> (Some e, w2)
                          | (None, w2) \<Rightarrow> draw_paths p ppath xps w2))))))"

text \<open>Lines 35 to 41: aspect ratio and axis labels.\<close>

definition finish :: "nat \<times> nat \<Rightarrow> bool \<Rightarrow> world \<Rightarrow> world" where
  "finish p equal w =
     (let w1 = (if equal then ax_set_aspect (snd p) Equal (ax_set_aspect (fst p) Equal w) else w)
      in ax_set_ylabel (fst p) ''Parameter''
           (ax_set_xlabel (snd p) ''Solution (Imaginary)''
              (ax_set_xlabel (fst p) ''Solution (Real)'' w1)))"

definition plot_homotopy ::
  "pyval \<Rightarrow> pyval list \<Rightarrow> pyval option \<Rightarrow> pyval option \<Rightarrow> bool \<Rightarrow> (nat \<times> nat) option \<Rightarrow>
   world \<Rightarrow> result" where
  "plot_homotopy ppath xpaths rzero czero equal axs w =
     (case homotopy_axs axs w of (p, w0) \<Rightarrow>
      (case draw_ref (fst p) rzero ppath w0 of
         (Some e, w1) \<Rightarrow> (Some e, w1)
       | (None, w1) \<Rightarrow>
          (case draw_ref (snd p) czero ppath w1 of
             (Some e, w2) \<Rightarrow> (Some e, w2)
           | (None, w2) \<Rightarrow>
              (case draw_paths p ppath xpaths w2 of
                 (Some e, w3) \<Rightarrow> (Some e, w3)
               | (None, w3) \<Rightarrow> (None, finish p equal w3)))))"

section \<open>What is drawn\<close>

text \<open>The (x, y) pairs of a drawn line.\<close>

definition points :: "line2d \<Rightarrow> (real \<times> real) list" where
  "points l = zip (real_parts (xdata l)) (real_parts (ydata l))"

text \<open>
  The lines the loop of \<^verbatim>\<open>plot_homotopy\<close> draws for one solution path, and the optional
  reference curve of a panel.
\<close>

definition curve_re :: "pyval \<Rightarrow> pyval \<Rightarrow> line2d" where
  "curve_re ppath xp =
     \<lparr>xdata = NdReal (real_parts xp), ydata = NdReal (real_parts ppath), style = []\<rparr>"

definition curve_im :: "pyval \<Rightarrow> pyval \<Rightarrow> line2d" where
  "curve_im ppath xp =
     \<lparr>xdata = NdReal (imag_parts xp), ydata = NdReal (real_parts ppath), style = []\<rparr>"

definition ref_curve :: "pyval option \<Rightarrow> pyval \<Rightarrow> line2d list" where
  "ref_curve zr ppath =
     (case zr of None \<Rightarrow> [] | Some r \<Rightarrow> [\<lparr>xdata = r, ydata = ppath, style = ref_style\<rparr>])"



section \<open>Concrete inputs\<close>

definition world0 :: world where
  "world0 = \<lparr>heap = (\<lambda>a. new_axes), nax = 0, nfig = 0, colors = [], fcalls = []\<rparr>"

definition demo_ppath :: pyval where
  "demo_ppath = NdReal [0, 1, 2]"

definition demo_xpaths :: "pyval list" where
  "demo_xpaths = [NdComplex [Complex 1 1, Complex 2 2, Complex 3 3],
                  NdComplex [Complex 1 (- 1), Complex 2 (- 2), Complex 3 (- 3)]]"

definition demo_rzero :: pyval where
  "demo_rzero = PyList [0, 0, 0]"

definition homotopy_demo :: result where
  "homotopy_demo = plot_homotopy demo_ppath demo_xpaths (Some demo_rzero) None True None world0"

definition list_ppath :: pyval where
  "list_ppath = PyList [0, 1, 2]"

definition mixed_xpaths :: "pyval list" where
  "mixed_xpaths = [NdComplex [Complex 1 1, Complex 2 2, Complex 3 3],
                   PyList [Complex 1 1, Complex 2 2, Complex 3 3],
                   NdComplex [Complex 1 (- 1), Complex 2 (- 2), Complex 3 (- 3)]]"

definition complex_ppath :: pyval where
  "complex_ppath = NdComplex [Complex 0 5, Complex 1 (- 1), Complex 2 0]"

text \<open>
  A function for \<^verbatim>\<open>f\<close> (\<^verbatim>\<open>lambda x: x**2\<close> on an array); an x-limit computation for the
  library (the range of the x data drawn so far widened by the library's default margin
  of 5 percent on either side, and (0, 1) on an empty axes); a style check that knows a
  few of the library's line options and rejects every other keyword; and a state in
  which one surface already exists.
\<close>

definition square_fn :: "pyval \<Rightarrow> exn + pyval" where
  "square_fn x = Inr (NdReal (map (\<lambda>t. t * t) (real_parts x)))"

definition data_xlim :: "axes \<Rightarrow> real \<times> real" where
  "data_xlim ax =
     (case concat (map (\<lambda>l. real_parts (xdata l)) (lines ax)) of
        [] \<Rightarrow> (0, 1)
      | t # ts \<Rightarrow>
          (let lo = fold min ts t; hi = fold max ts t; m = (hi - lo) * (5 / 100)
           in (lo - m, hi + m)))"

definition known_style :: "kwargs \<Rightarrow> exn option" where
  "known_style kw =
     (if list_all (\<lambda>(k, v). k \<in> set [''color'', ''linestyle'', ''linewidth'', ''zorder'',
                                       ''label'', ''alpha'']) kw
      then None else Some AttributeError)"

definition world1 :: world where
  "world1 = snd (plt_subplots world0)"

section \<open>Properties of the library operations\<close>

lemma heap_upd_axes [simp]:
  "heap (upd_axes a g w) b = (if b = a then g (heap w a) else heap w b)"
  by (simp add: upd_axes_def)

lemma frame_upd_axes [simp]:
  "nax (upd_axes a g w) = nax w" "nfig (upd_axes a g w) = nfig w"
  "colors (upd_axes a g w) = colors w" "fcalls (upd_axes a g w) = fcalls w"
  by (simp_all add: upd_axes_def)

lemma attr_real_has: "has_parts v \<Longrightarrow> attr_real v = Inr (NdReal (real_parts v))"
  by (cases v) (auto simp: real_parts_def comp_def)

lemma attr_imag_has: "has_parts v \<Longrightarrow> attr_imag v = Inr (NdReal (imag_parts v))"
  by (cases v) (auto simp: imag_parts_def comp_def)

lemma attr_real_no: "\<not> has_parts v \<Longrightarrow> attr_real v = Inl AttributeError"
  by (cases v) auto

lemma attr_imag_no: "\<not> has_parts v \<Longrightarrow> attr_imag v = Inl AttributeError"
  by (cases v) auto

lemma len_parts [simp]: "len (NdReal (real_parts v)) = len v" "len (NdReal (imag_parts v)) = len v"
  by (simp_all add: len_def real_parts_def imag_parts_def)

section \<open>Properties of the loop over the solution paths\<close>

text \<open>One iteration of the loop, when it succeeds.\<close>

lemma draw_paths_Cons_ok:
  "draw_paths p ppath (xp # xps) w = (None, w') \<longleftrightarrow>
     has_parts xp \<and> has_parts ppath \<and> len xp = len ppath \<and>
     draw_paths p ppath xps
       (upd_axes (snd p) (\<lambda>ax. ax\<lparr>lines := lines ax @ [curve_im ppath xp]\<rparr>)
         (upd_axes (fst p) (\<lambda>ax. ax\<lparr>lines := lines ax @ [curve_re ppath xp]\<rparr>) w)) = (None, w')"
  by (cases "has_parts xp"; cases "has_parts ppath")
     (auto simp: attr_real_has attr_imag_has attr_real_no attr_imag_no ax_plot_def
        curve_re_def curve_im_def)

lemma draw_paths_lines:
  "draw_paths (a0, a1) ppath xps w = (None, w') \<Longrightarrow> a0 \<noteq> a1 \<Longrightarrow>
     lines (heap w' a0) = lines (heap w a0) @ map (curve_re ppath) xps \<and>
     lines (heap w' a1) = lines (heap w a1) @ map (curve_im ppath) xps"
proof (induction xps arbitrary: w)
  case Nil
  then show ?case by simp
next
  case (Cons xp xps)
  from Cons.prems(1) have
    "draw_paths (a0, a1) ppath xps
       (upd_axes a1 (\<lambda>ax. ax\<lparr>lines := lines ax @ [curve_im ppath xp]\<rparr>)
         (upd_axes a0 (\<lambda>ax. ax\<lparr>lines := lines ax @ [curve_re ppath xp]\<rparr>) w)) = (None, w')"
    by (simp only: draw_paths_Cons_ok fst_conv snd_conv)
  from Cons.IH [OF this Cons.prems(2)] Cons.prems(2) show ?case
    by simp
qed


lemma draw_paths_Cons_bad:
  "\<not> has_parts xp \<or> \<not> has_parts ppath \<Longrightarrow>
     draw_paths p ppath (xp # xps) w = (Some AttributeError, w)"
  by (cases "has_parts xp"; cases "has_parts ppath")
     (auto simp: attr_real_has attr_imag_has attr_real_no attr_imag_no)

lemma draw_paths_Cons_mismatch:
  "has_parts xp \<Longrightarrow> has_parts ppath \<Longrightarrow> len xp \<noteq> len ppath \<Longrightarrow>
     draw_paths p ppath (xp # xps) w = (Some ValueError, w)"
  by (auto simp: attr_real_has attr_imag_has ax_plot_def)

lemma draw_paths_Cons_good:
  "has_parts xp \<Longrightarrow> has_parts ppath \<Longrightarrow> len xp = len ppath \<Longrightarrow>
     draw_paths p ppath (xp # xps) w =
     draw_paths p ppath xps
       (upd_axes (snd p) (\<lambda>ax. ax\<lparr>lines := lines ax @ [curve_im ppath xp]\<rparr>)
         (upd_axes (fst p) (\<lambda>ax. ax\<lparr>lines := lines ax @ [curve_re ppath xp]\<rparr>) w))"
  by (auto simp: attr_real_has attr_imag_has ax_plot_def curve_re_def curve_im_def)

lemma draw_paths_Cons_cases:
  "draw_paths p ppath (xp # xps) w = (Some AttributeError, w) \<or>
   draw_paths p ppath (xp # xps) w = (Some ValueError, w) \<or>
   draw_paths p ppath (xp # xps) w =
     draw_paths p ppath xps
       (upd_axes (snd p) (\<lambda>ax. ax\<lparr>lines := lines ax @ [curve_im ppath xp]\<rparr>)
         (upd_axes (fst p) (\<lambda>ax. ax\<lparr>lines := lines ax @ [curve_re ppath xp]\<rparr>) w))"
  using draw_paths_Cons_bad [of xp ppath p xps w] draw_paths_Cons_mismatch [of xp ppath p xps w]
    draw_paths_Cons_good [of xp ppath p xps w]
  by blast

lemma draw_paths_frame:
  "nax (snd (draw_paths p ppath xps w)) = nax w \<and>
   nfig (snd (draw_paths p ppath xps w)) = nfig w \<and>
   colors (snd (draw_paths p ppath xps w)) = colors w \<and>
   fcalls (snd (draw_paths p ppath xps w)) = fcalls w \<and>
   collections (heap (snd (draw_paths p ppath xps w)) b) = collections (heap w b) \<and>
   xlabel (heap (snd (draw_paths p ppath xps w)) b) = xlabel (heap w b) \<and>
   ylabel (heap (snd (draw_paths p ppath xps w)) b) = ylabel (heap w b) \<and>
   aspect (heap (snd (draw_paths p ppath xps w)) b) = aspect (heap w b) \<and>
   (b \<noteq> fst p \<and> b \<noteq> snd p \<longrightarrow> heap (snd (draw_paths p ppath xps w)) b = heap w b)"
proof (induction xps arbitrary: w)
  case Nil
  show ?case by simp
next
  case (Cons xp xps)
  consider
    (bad) "draw_paths p ppath (xp # xps) w = (Some AttributeError, w)"
  | (mismatch) "draw_paths p ppath (xp # xps) w = (Some ValueError, w)"
  | (good) "draw_paths p ppath (xp # xps) w =
      draw_paths p ppath xps
       (upd_axes (snd p) (\<lambda>ax. ax\<lparr>lines := lines ax @ [curve_im ppath xp]\<rparr>)
         (upd_axes (fst p) (\<lambda>ax. ax\<lparr>lines := lines ax @ [curve_re ppath xp]\<rparr>) w))"
    using draw_paths_Cons_cases [of p ppath xp xps w] by blast
  then show ?case
  proof cases
    case bad
    show ?thesis unfolding bad by simp
  next
    case mismatch
    show ?thesis unfolding mismatch by simp
  next
    case good
    show ?thesis unfolding good by (simp add: Cons.IH)
  qed
qed

lemma draw_paths_append:
  "draw_paths p ppath (xs @ ys) w =
     (case draw_paths p ppath xs w of
        (None, w1) \<Rightarrow> draw_paths p ppath ys w1
      | (Some e, w1) \<Rightarrow> (Some e, w1))"
proof (induction xs arbitrary: w)
  case Nil
  show ?case by simp
next
  case (Cons xp xs)
  show ?case
  proof (cases "has_parts xp \<and> has_parts ppath")
    case False
    then have "\<not> has_parts xp \<or> \<not> has_parts ppath" by simp
    from draw_paths_Cons_bad [OF this] show ?thesis
      by (simp only: append_Cons) simp
  next
    case True
    show ?thesis
    proof (cases "len xp = len ppath")
      case False
      with True draw_paths_Cons_mismatch show ?thesis
        by (simp only: append_Cons) simp
    next
      case eq: True
      with True show ?thesis
        by (simp only: append_Cons draw_paths_Cons_good Cons.IH)
    qed
  qed
qed

lemma draw_paths_good:
  "\<forall>xp\<in>set xs. has_parts xp \<and> has_parts ppath \<and> len xp = len ppath \<Longrightarrow>
     fst (draw_paths p ppath xs w) = None"
proof (induction xs arbitrary: w)
  case Nil
  show ?case by simp
next
  case (Cons xp xs)
  from Cons.prems have h: "has_parts xp" "has_parts ppath" "len xp = len ppath"
    and t: "\<forall>xp\<in>set xs. has_parts xp \<and> has_parts ppath \<and> len xp = len ppath"
    by simp_all
  show ?case
    unfolding draw_paths_Cons_good [OF h] by (rule Cons.IH [OF t])
qed

section \<open>The module-level palette\<close>

lemma upd_axes_colors: "upd_axes a g (w\<lparr>colors := c\<rparr>) = (upd_axes a g w)\<lparr>colors := c\<rparr>"
  by (simp add: upd_axes_def)

lemma draw_paths_colors:
  "draw_paths p ppath xps (w\<lparr>colors := c\<rparr>) =
     (fst (draw_paths p ppath xps w), (snd (draw_paths p ppath xps w))\<lparr>colors := c\<rparr>)"
proof (induction xps arbitrary: w)
  case Nil
  show ?case by simp
next
  case (Cons xp xps)
  show ?case
  proof (cases "has_parts xp \<and> has_parts ppath")
    case False
    then have "\<not> has_parts xp \<or> \<not> has_parts ppath" by simp
    then show ?thesis by (simp only: draw_paths_Cons_bad fst_conv snd_conv)
  next
    case True
    show ?thesis
    proof (cases "len xp = len ppath")
      case False
      with True have "\<And>v. draw_paths p ppath (xp # xps) v = (Some ValueError, v)"
        by (simp only: draw_paths_Cons_mismatch simp_thms)
      then show ?thesis by (simp only: fst_conv snd_conv)
    next
      case eq: True
      with True show ?thesis
        by (simp only: draw_paths_Cons_good upd_axes_colors Cons.IH)
    qed
  qed
qed

lemma draw_ref_colors:
  "draw_ref a zr ppath (w\<lparr>colors := c\<rparr>) =
     (fst (draw_ref a zr ppath w), (snd (draw_ref a zr ppath w))\<lparr>colors := c\<rparr>)"
  by (simp add: draw_ref_def ax_plot_def upd_axes_colors split: option.splits)

lemma finish_colors: "finish p eq (w\<lparr>colors := c\<rparr>) = (finish p eq w)\<lparr>colors := c\<rparr>"
  by (simp add: finish_def ax_set_aspect_def ax_set_xlabel_def ax_set_ylabel_def upd_axes_colors)

lemma homotopy_axs_colors:
  "homotopy_axs axs (w\<lparr>colors := c\<rparr>) =
     (fst (homotopy_axs axs w), (snd (homotopy_axs axs w))\<lparr>colors := c\<rparr>)"
  by (simp add: homotopy_axs_def plt_subplots2_def split: option.splits)

lemma plot_homotopy_colors:
  "plot_homotopy ppath xpaths rzero czero equal axs (w\<lparr>colors := c\<rparr>) =
     (fst (plot_homotopy ppath xpaths rzero czero equal axs w),
      (snd (plot_homotopy ppath xpaths rzero czero equal axs w))\<lparr>colors := c\<rparr>)"
  unfolding plot_homotopy_def homotopy_axs_colors
  apply (cases "homotopy_axs axs w")
  apply (simp only: fst_conv snd_conv prod.case)
  subgoal for p w0
    apply (subst draw_ref_colors)
    apply (cases "draw_ref (fst p) rzero ppath w0")
    subgoal for r1 w1
      apply (cases r1)
       apply (simp only: fst_conv snd_conv prod.case option.case)
       apply (subst draw_ref_colors)
       apply (cases "draw_ref (snd p) czero ppath w1")
      subgoal for r2 w2
        apply (cases r2)
         apply (simp only: fst_conv snd_conv prod.case option.case)
         apply (subst draw_paths_colors)
         apply (cases "draw_paths p ppath xpaths w2")
        subgoal for r3 w3
          by (cases r3) (simp_all add: finish_colors)
        by simp
      by simp
    done
  done

lemma plot_colors: "plot gx sc f x0 x1 N ax zero kw (w\<lparr>colors := c\<rparr>) =
    (fst (plot gx sc f x0 x1 N ax zero kw w), (snd (plot gx sc f x0 x1 N ax zero kw w))\<lparr>colors := c\<rparr>)"
  by (simp add: plot_def ax_plot_kw_def plot_ax_def plt_subplots_def ax_plot_def ax_hlines_def upd_axes_def
      split: option.splits sum.splits prod.splits)

section \<open>Properties of the steps of plot_homotopy\<close>

lemma draw_ref_frame:
  "nax (snd (draw_ref a zr ppath w)) = nax w \<and>
   nfig (snd (draw_ref a zr ppath w)) = nfig w \<and>
   colors (snd (draw_ref a zr ppath w)) = colors w \<and>
   fcalls (snd (draw_ref a zr ppath w)) = fcalls w \<and>
   collections (heap (snd (draw_ref a zr ppath w)) b) = collections (heap w b) \<and>
   xlabel (heap (snd (draw_ref a zr ppath w)) b) = xlabel (heap w b) \<and>
   ylabel (heap (snd (draw_ref a zr ppath w)) b) = ylabel (heap w b) \<and>
   aspect (heap (snd (draw_ref a zr ppath w)) b) = aspect (heap w b) \<and>
   (b \<noteq> a \<longrightarrow> heap (snd (draw_ref a zr ppath w)) b = heap w b)"
  by (simp add: draw_ref_def ax_plot_def split: option.splits)

lemma draw_ref_lines:
  "draw_ref a zr ppath w = (None, w') \<Longrightarrow>
     lines (heap w' b) = lines (heap w b) @ (if b = a then ref_curve zr ppath else [])"
  by (auto simp: draw_ref_def ax_plot_def ref_curve_def split: option.splits if_splits)

lemma draw_ref_good:
  "\<forall>r. zr = Some r \<longrightarrow> len r = len ppath \<Longrightarrow> fst (draw_ref a zr ppath w) = None"
  by (simp add: draw_ref_def ax_plot_def split: option.splits)

lemma finish_frame:
  "nax (finish p eq w) = nax w" "nfig (finish p eq w) = nfig w"
  "colors (finish p eq w) = colors w" "fcalls (finish p eq w) = fcalls w"
  "lines (heap (finish p eq w) b) = lines (heap w b)"
  "collections (heap (finish p eq w) b) = collections (heap w b)"
  by (simp_all add: finish_def ax_set_aspect_def ax_set_xlabel_def ax_set_ylabel_def Let_def)

lemma finish_aspect:
  "aspect (heap (finish p eq w) b) =
     (if eq \<and> (b = fst p \<or> b = snd p) then Equal else aspect (heap w b))"
  by (simp add: finish_def ax_set_aspect_def ax_set_xlabel_def ax_set_ylabel_def Let_def)

lemma finish_xlabel:
  "xlabel (heap (finish p eq w) b) =
     (if b = snd p then ''Solution (Imaginary)''
      else if b = fst p then ''Solution (Real)'' else xlabel (heap w b))"
  by (simp add: finish_def ax_set_aspect_def ax_set_xlabel_def ax_set_ylabel_def Let_def)

lemma finish_ylabel:
  "ylabel (heap (finish p eq w) b) = (if b = fst p then ''Parameter'' else ylabel (heap w b))"
  by (simp add: finish_def ax_set_aspect_def ax_set_xlabel_def ax_set_ylabel_def Let_def)

lemma homotopy_axs_new:
  "homotopy_axs None w = ((a0, a1), w0) \<Longrightarrow>
     a0 = nax w \<and> a1 = nax w + 1 \<and> heap w0 a0 = new_axes \<and> heap w0 a1 = new_axes \<and>
     nax w0 = nax w + 2 \<and> nfig w0 = nfig w + 1"
  by (auto simp: homotopy_axs_def plt_subplots2_def)

text \<open>The function as the sequence of its steps.\<close>

lemma plot_homotopy_steps:
  assumes "homotopy_axs axs w = (p, w0)"
  shows "plot_homotopy ppath xpaths rzero czero equal axs w =
     (case draw_ref (fst p) rzero ppath w0 of
         (Some e, w1) \<Rightarrow> (Some e, w1)
       | (None, w1) \<Rightarrow>
          (case draw_ref (snd p) czero ppath w1 of
             (Some e, w2) \<Rightarrow> (Some e, w2)
           | (None, w2) \<Rightarrow>
              (case draw_paths p ppath xpaths w2 of
                 (Some e, w3) \<Rightarrow> (Some e, w3)
               | (None, w3) \<Rightarrow> (None, finish p equal w3))))"
  using assms by (simp add: plot_homotopy_def)

lemma plot_homotopy_ok:
  assumes "homotopy_axs axs w = (p, w0)"
    and "plot_homotopy ppath xpaths rzero czero equal axs w = (None, w')"
  obtains w1 w2 w3 where
    "draw_ref (fst p) rzero ppath w0 = (None, w1)"
    "draw_ref (snd p) czero ppath w1 = (None, w2)"
    "draw_paths p ppath xpaths w2 = (None, w3)"
    "w' = finish p equal w3"
  using assms(2) unfolding plot_homotopy_steps [OF assms(1)]
  by (auto split: prod.splits option.splits)

text \<open>Arrays of the length of the parameter path are all the call needs to return.\<close>

lemma plot_homotopy_returns:
  assumes rz: "\<forall>r. rzero = Some r \<longrightarrow> len r = len ppath"
    and cz: "\<forall>r. czero = Some r \<longrightarrow> len r = len ppath"
    and good: "\<forall>xp\<in>set xpaths. has_parts xp \<and> has_parts ppath \<and> len xp = len ppath"
  shows "fst (plot_homotopy ppath xpaths rzero czero equal axs w) = None"
proof -
  obtain p w0 where panels: "homotopy_axs axs w = (p, w0)" by fastforce
  obtain w1 where s1: "draw_ref (fst p) rzero ppath w0 = (None, w1)"
    using draw_ref_good [OF rz, of "fst p" w0] by (cases "draw_ref (fst p) rzero ppath w0") simp
  obtain w2 where s2: "draw_ref (snd p) czero ppath w1 = (None, w2)"
    using draw_ref_good [OF cz, of "snd p" w1] by (cases "draw_ref (snd p) czero ppath w1") simp
  obtain w3 where s3: "draw_paths p ppath xpaths w2 = (None, w3)"
    using draw_paths_good [OF good, of p w2] by (cases "draw_paths p ppath xpaths w2") simp
  show ?thesis
    unfolding plot_homotopy_steps [OF panels] by (simp add: s1 s2 s3)
qed

lemma homotopy_lines:
  assumes run: "plot_homotopy ppath xpaths rzero czero equal axs w = (None, w')"
    and panels: "homotopy_axs axs w = ((a0, a1), w0)"
    and distinct: "a0 \<noteq> a1"
  shows "lines (heap w' a0) = lines (heap w0 a0) @ ref_curve rzero ppath @ map (curve_re ppath) xpaths"
    and "lines (heap w' a1) = lines (heap w0 a1) @ ref_curve czero ppath @ map (curve_im ppath) xpaths"
proof -
  from plot_homotopy_ok [OF panels run] obtain w1 w2 w3 where
    s1: "draw_ref a0 rzero ppath w0 = (None, w1)" and
    s2: "draw_ref a1 czero ppath w1 = (None, w2)" and
    s3: "draw_paths (a0, a1) ppath xpaths w2 = (None, w3)" and
    s4: "w' = finish (a0, a1) equal w3"
    by auto
  from draw_paths_lines [OF s3 distinct] draw_ref_lines [OF s2] draw_ref_lines [OF s1] distinct
  show "lines (heap w' a0) = lines (heap w0 a0) @ ref_curve rzero ppath @ map (curve_re ppath) xpaths"
    and "lines (heap w' a1) = lines (heap w0 a1) @ ref_curve czero ppath @ map (curve_im ppath) xpaths"
    by (simp_all add: s4 finish_frame)
qed

lemma homotopy_frame:
  assumes panels: "homotopy_axs axs w = (p, w0)"
  shows "aspect (heap (snd (plot_homotopy ppath xpaths rzero czero equal axs w)) b) =
           (if equal \<and> fst (plot_homotopy ppath xpaths rzero czero equal axs w) = None
               \<and> (b = fst p \<or> b = snd p)
            then Equal else aspect (heap w0 b))"
proof -
  obtain r1 w1 where s1: "draw_ref (fst p) rzero ppath w0 = (r1, w1)" by fastforce
  obtain r2 w2 where s2: "draw_ref (snd p) czero ppath w1 = (r2, w2)" by fastforce
  obtain r3 w3 where s3: "draw_paths p ppath xpaths w2 = (r3, w3)" by fastforce
  have a1: "aspect (heap w1 b) = aspect (heap w0 b)"
    using draw_ref_frame [of "fst p" rzero ppath w0 b] by (simp add: s1)
  have a2: "aspect (heap w2 b) = aspect (heap w1 b)"
    using draw_ref_frame [of "snd p" czero ppath w1 b] by (simp add: s2)
  have a3: "aspect (heap w3 b) = aspect (heap w2 b)"
    using draw_paths_frame [of p ppath xpaths w2 b] by (simp add: s3)
  show ?thesis
    unfolding plot_homotopy_steps [OF panels] s1
    by (cases r1; cases r2; cases r3) (auto simp: s2 s3 a1 a2 a3 finish_aspect)
qed

lemma attr_real_cong:
  "real_parts p1 = real_parts p2 \<Longrightarrow> has_parts p1 = has_parts p2 \<Longrightarrow> attr_real p1 = attr_real p2"
  by (cases "has_parts p1") (simp_all add: attr_real_has attr_real_no)

lemma draw_paths_real_only:
  assumes "attr_real p1 = attr_real p2"
  shows "draw_paths p p1 xps w = draw_paths p p2 xps w"
proof (induction xps arbitrary: w)
  case Nil
  show ?case by simp
next
  case (Cons xp xps)
  show ?case
    by (simp add: assms Cons.IH cong: sum.case_cong prod.case_cong option.case_cong)
qed

section \<open>A concrete run of plot_homotopy\<close>

lemmas demo_defs = homotopy_demo_def demo_ppath_def demo_xpaths_def demo_rzero_def world0_def
  new_axes_def plot_homotopy_def homotopy_axs_def plt_subplots2_def draw_ref_def ax_plot_def
  upd_axes_def finish_def ax_set_aspect_def ax_set_xlabel_def ax_set_ylabel_def len_def

lemma homotopy_demo_ok: "fst homotopy_demo = None"
  by (simp add: demo_defs)

lemma homotopy_demo_panels: "homotopy_axs None world0 = ((0, 1), snd (homotopy_axs None world0))"
  by (simp add: homotopy_axs_def plt_subplots2_def world0_def)

section \<open>Properties of plot\<close>











lemma plot_frame:
  assumes "plot_ax ax w = (a, w1)"
  shows "nfig (snd (plot gx sc f x0 x1 N ax zero kw w)) = nfig w1
       \<and> nax (snd (plot gx sc f x0 x1 N ax zero kw w)) = nax w1
       \<and> (b \<noteq> a \<longrightarrow> heap (snd (plot gx sc f x0 x1 N ax zero kw w)) b = heap w1 b)"
  using assms
  by (simp add: plot_def ax_plot_kw_def ax_plot_def ax_hlines_def split: option.splits sum.splits)

lemma upt_5: "[0..<5] = [0, 1, 2, 3, 4]"
  by (simp add: upt_rec)


lemma grid_5: "linspace_pts (- 1) 1 5 = [- 1, - (1 / 2), 0, 1 / 2, 1]"
  by (simp add: linspace_pts_def upt_5)



lemma square_pts_5:
  "square_fn (NdReal [- 1, - (1 / 2), 0, 1 / 2, 1]) = Inr (NdReal [1, 1 / 4, 0, 1 / 4, 1])"
  by (simp add: square_fn_def real_parts_def)


section \<open>Verified properties\<close>

text \<open>
  C3, as stated. The call \<^verbatim>\<open>plot_homotopy([0,1,2], [[1+1j, 2+2j, 3+3j]])\<close> passes plain
  Python lists. The first iteration of the loop reads \<^verbatim>\<open>xp.real\<close> on a list and raises
  AttributeError; the two panels have been created and nothing has been drawn on either.
\<close>

theorem homotopy_list_scenario_raises:
  "fst (plot_homotopy (PyList [0, 1, 2]) [PyList [Complex 1 1, Complex 2 2, Complex 3 3]]
          None None True None world0) = Some AttributeError
   \<and> lines (heap (snd (plot_homotopy (PyList [0, 1, 2])
          [PyList [Complex 1 1, Complex 2 2, Complex 3 3]] None None True None world0)) 0) = []
   \<and> lines (heap (snd (plot_homotopy (PyList [0, 1, 2])
          [PyList [Complex 1 1, Complex 2 2, Complex 3 3]] None None True None world0)) 1) = []"
  by (simp add: plot_homotopy_def homotopy_axs_def plt_subplots2_def draw_ref_def
      world0_def new_axes_def)

text \<open>
  C3, amended. With the same numbers given as arrays,
  \<^verbatim>\<open>plot_homotopy(np.array([0,1,2]), [np.array([1+1j, 2+2j, 3+3j])])\<close> returns normally
  and draws exactly one line on each of the two new panels: on panel 1 the pairs
  (1,0), (2,1), (3,2), and on panel 2 the pairs (1,0), (2,1), (3,2).
\<close>

theorem homotopy_array_scenario:
  "fst (plot_homotopy (NdReal [0, 1, 2]) [NdComplex [Complex 1 1, Complex 2 2, Complex 3 3]]
          None None True None world0) = None
   \<and> map points (lines (heap (snd (plot_homotopy (NdReal [0, 1, 2])
          [NdComplex [Complex 1 1, Complex 2 2, Complex 3 3]] None None True None world0)) 0))
       = [[(1, 0), (2, 1), (3, 2)]]
   \<and> map points (lines (heap (snd (plot_homotopy (NdReal [0, 1, 2])
          [NdComplex [Complex 1 1, Complex 2 2, Complex 3 3]] None None True None world0)) 1))
       = [[(1, 0), (2, 1), (3, 2)]]"
  by (simp add: plot_homotopy_def homotopy_axs_def plt_subplots2_def draw_ref_def
      ax_plot_def upd_axes_def finish_def ax_set_aspect_def ax_set_xlabel_def ax_set_ylabel_def
      world0_def new_axes_def len_def real_parts_def points_def)

text \<open>
  C10. Neither function reads the module-level \<^verbatim>\<open>colors\<close> list: running either function
  in a state whose \<^verbatim>\<open>colors\<close> has been replaced by any value \<open>c\<close> gives the same outcome
  and the same final state as before, apart from \<^verbatim>\<open>colors\<close> itself, which is passed
  through untouched.
\<close>

theorem colors_never_consulted:
  "plot gx sc f x0 x1 N ax zero kw (w\<lparr>colors := c\<rparr>) =
     (fst (plot gx sc f x0 x1 N ax zero kw w),
      (snd (plot gx sc f x0 x1 N ax zero kw w))\<lparr>colors := c\<rparr>)
   \<and> plot_homotopy ppath xpaths rzero czero equal axs (w\<lparr>colors := c\<rparr>) =
     (fst (plot_homotopy ppath xpaths rzero czero equal axs w),
      (snd (plot_homotopy ppath xpaths rzero czero equal axs w))\<lparr>colors := c\<rparr>)"
  by (simp only: plot_colors plot_homotopy_colors simp_thms)

text \<open>
  C2, as stated. With \<^verbatim>\<open>ppath\<close> an array and \<^verbatim>\<open>xpaths\<close> holding an array, a plain list and
  another array, the call raises AttributeError in the second iteration: \<^verbatim>\<open>xpaths\<close> has
  three entries and each panel holds one solution curve.
\<close>

theorem homotopy_raising_call_draws_fewer_curves:
  "fst (plot_homotopy demo_ppath mixed_xpaths None None True None world0) = Some AttributeError
   \<and> length mixed_xpaths = 3
   \<and> length (lines (heap (snd (plot_homotopy demo_ppath mixed_xpaths None None True None
        world0)) 0)) = 1
   \<and> length (lines (heap (snd (plot_homotopy demo_ppath mixed_xpaths None None True None
        world0)) 1)) = 1"
  by (simp add: plot_homotopy_def homotopy_axs_def plt_subplots2_def draw_ref_def
      ax_plot_def upd_axes_def demo_ppath_def mixed_xpaths_def world0_def new_axes_def len_def)

text \<open>
  C2, amended. Every call to \<^verbatim>\<open>plot_homotopy\<close> that completes, on two distinct panels, has
  appended to panel 1 (after the optional reference curve) exactly one line per entry of
  \<^verbatim>\<open>xpaths\<close>, in order, whose x-values are the real parts of that path, and to panel 2
  exactly one line per entry whose x-values are the imaginary parts; the y-values of
  every one of these lines are \<^verbatim>\<open>ppath.real\<close>, which for a real parameter path is
  \<^verbatim>\<open>ppath\<close> itself.
\<close>

theorem homotopy_solution_curves:
  assumes run: "plot_homotopy ppath xpaths rzero czero equal axs w = (None, w')"
    and panels: "homotopy_axs axs w = ((a0, a1), w0)"
    and distinct: "a0 \<noteq> a1"
  shows "lines (heap w' a0) =
           lines (heap w0 a0) @ ref_curve rzero ppath @ map (curve_re ppath) xpaths
       \<and> lines (heap w' a1) =
           lines (heap w0 a1) @ ref_curve czero ppath @ map (curve_im ppath) xpaths
       \<and> length (map (curve_re ppath) xpaths) = length xpaths
       \<and> length (map (curve_im ppath) xpaths) = length xpaths
       \<and> (\<forall>xp. real_parts (xdata (curve_re ppath xp)) = real_parts xp
              \<and> real_parts (xdata (curve_im ppath xp)) = imag_parts xp
              \<and> real_parts (ydata (curve_re ppath xp)) = real_parts ppath
              \<and> real_parts (ydata (curve_im ppath xp)) = real_parts ppath)
       \<and> (\<forall>ps xp. ppath = NdReal ps \<longrightarrow>
              ydata (curve_re ppath xp) = ppath \<and> ydata (curve_im ppath xp) = ppath)"
  using homotopy_lines [OF run panels distinct]
  by (simp add: curve_re_def curve_im_def real_parts_def comp_def)

theorem homotopy_solution_curves_witness:
  "plot_homotopy demo_ppath demo_xpaths (Some demo_rzero) None True None world0
     = (None, snd homotopy_demo)
   \<and> homotopy_axs None world0 = ((0, 1), snd (homotopy_axs None world0))
   \<and> (0::nat) \<noteq> 1
   \<and> lines (heap (snd homotopy_demo) 0) =
       lines (heap (snd (homotopy_axs None world0)) 0) @ ref_curve (Some demo_rzero) demo_ppath
         @ map (curve_re demo_ppath) demo_xpaths
   \<and> lines (heap (snd homotopy_demo) 1) =
       lines (heap (snd (homotopy_axs None world0)) 1) @ ref_curve None demo_ppath
         @ map (curve_im demo_ppath) demo_xpaths
   \<and> map points (lines (heap (snd homotopy_demo) 1)) =
       [[(1, 0), (2, 1), (3, 2)], [(- 1, 0), (- 2, 1), (- 3, 2)]]"
proof -
  have run: "plot_homotopy demo_ppath demo_xpaths (Some demo_rzero) None True None world0
     = (None, snd homotopy_demo)"
    using homotopy_demo_ok by (simp add: homotopy_demo_def prod_eq_iff)
  have ne: "(0::nat) \<noteq> 1" by simp
  have pts: "map points (lines (heap (snd homotopy_demo) 1)) =
       [[(1, 0), (2, 1), (3, 2)], [(- 1, 0), (- 2, 1), (- 3, 2)]]"
    by (simp add: demo_defs points_def real_parts_def)
  from homotopy_solution_curves [OF run homotopy_demo_panels ne] run homotopy_demo_panels pts ne
  show ?thesis by blast
qed

text \<open>
  C6, as stated. With \<^verbatim>\<open>ppath\<close> a plain list and \<^verbatim>\<open>equal\<close> true, the call raises
  AttributeError in the first iteration of the loop, before the aspect ratios are set:
  both panels are left at the library's default, \<^verbatim>\<open>'auto'\<close>.
\<close>

theorem homotopy_raising_call_leaves_aspect:
  "fst (plot_homotopy list_ppath demo_xpaths None None True None world0) = Some AttributeError
   \<and> aspect (heap (snd (plot_homotopy list_ppath demo_xpaths None None True None world0)) 0)
       = Auto
   \<and> aspect (heap (snd (plot_homotopy list_ppath demo_xpaths None None True None world0)) 1)
       = Auto"
  by (simp add: plot_homotopy_def homotopy_axs_def plt_subplots2_def draw_ref_def
      list_ppath_def demo_xpaths_def world0_def new_axes_def)

text \<open>
  C6, amended. Let \<open>a0\<close>, \<open>a1\<close> be the two panels of a call to \<^verbatim>\<open>plot_homotopy\<close> and \<open>w0\<close>
  the state once they exist (the caller's state when the panels are supplied). If
  \<^verbatim>\<open>equal\<close> is true and the call completes, both panels have aspect ratio \<^verbatim>\<open>'equal'\<close>
  (1:1). If \<^verbatim>\<open>equal\<close> is false, no axes has its aspect ratio changed, whether the call
  completes or raises; for panels the call created itself that is the library's
  default, \<^verbatim>\<open>'auto'\<close>.
\<close>

theorem homotopy_aspect:
  assumes panels: "homotopy_axs axs w = ((a0, a1), w0)"
  shows "(equal \<and> fst (plot_homotopy ppath xpaths rzero czero equal axs w) = None \<longrightarrow>
            aspect (heap (snd (plot_homotopy ppath xpaths rzero czero equal axs w)) a0) = Equal
          \<and> aspect (heap (snd (plot_homotopy ppath xpaths rzero czero equal axs w)) a1) = Equal)
       \<and> (\<not> equal \<longrightarrow>
            (\<forall>b. aspect (heap (snd (plot_homotopy ppath xpaths rzero czero equal axs w)) b)
                   = aspect (heap w0 b)))
       \<and> (axs = None \<longrightarrow> aspect (heap w0 a0) = Auto \<and> aspect (heap w0 a1) = Auto)
       \<and> (axs \<noteq> None \<longrightarrow> w0 = w)"
proof -
  have new: "axs = None \<longrightarrow> aspect (heap w0 a0) = Auto \<and> aspect (heap w0 a1) = Auto"
    using panels homotopy_axs_new [of w a0 a1 w0] by (auto simp: new_axes_def)
  have given: "axs \<noteq> None \<longrightarrow> w0 = w"
    using panels by (auto simp: homotopy_axs_def)
  have eq: "equal \<and> fst (plot_homotopy ppath xpaths rzero czero equal axs w) = None \<longrightarrow>
            aspect (heap (snd (plot_homotopy ppath xpaths rzero czero equal axs w)) a0) = Equal
          \<and> aspect (heap (snd (plot_homotopy ppath xpaths rzero czero equal axs w)) a1) = Equal"
    using homotopy_frame [OF panels, of ppath xpaths rzero czero equal a0]
      homotopy_frame [OF panels, of ppath xpaths rzero czero equal a1]
    by auto
  have neq: "\<not> equal \<longrightarrow>
            (\<forall>b. aspect (heap (snd (plot_homotopy ppath xpaths rzero czero equal axs w)) b)
                   = aspect (heap w0 b))"
    by (simp add: homotopy_frame [OF panels])
  from eq neq new given show ?thesis
    by blast
qed

theorem homotopy_aspect_witness:
  "homotopy_axs None world0 = ((0, 1), snd (homotopy_axs None world0))
   \<and> fst (plot_homotopy demo_ppath demo_xpaths (Some demo_rzero) None True None world0) = None
   \<and> aspect (heap (snd (plot_homotopy demo_ppath demo_xpaths (Some demo_rzero) None True None
         world0)) 0) = Equal
   \<and> aspect (heap (snd (plot_homotopy demo_ppath demo_xpaths (Some demo_rzero) None True None
         world0)) 1) = Equal
   \<and> aspect (heap (snd (plot_homotopy demo_ppath demo_xpaths (Some demo_rzero) None False None
         world0)) 0) = Auto
   \<and> aspect (heap (snd (plot_homotopy demo_ppath demo_xpaths (Some demo_rzero) None False None
         world0)) 1) = Auto"
proof -
  have ok: "fst (plot_homotopy demo_ppath demo_xpaths (Some demo_rzero) None True None world0)
      = None"
    using homotopy_demo_ok by (simp add: homotopy_demo_def)
  from homotopy_aspect [OF homotopy_demo_panels, of True demo_ppath demo_xpaths
      "Some demo_rzero" None]
    homotopy_aspect [OF homotopy_demo_panels, of False demo_ppath demo_xpaths
      "Some demo_rzero" None]
    ok homotopy_demo_panels
  show ?thesis by simp
qed

text \<open>
  C7. Every call to \<^verbatim>\<open>plot_homotopy\<close> that completes, on two distinct panels, leaves
  panel 1 with x-axis label "Solution (Real)" and y-axis label "Parameter", and panel 2
  with x-axis label "Solution (Imaginary)"; the y-axis label of panel 2 is what it was
  before the call, which for a panel the call created is the empty label.
\<close>

theorem homotopy_labels:
  assumes run: "plot_homotopy ppath xpaths rzero czero equal axs w = (None, w')"
    and panels: "homotopy_axs axs w = ((a0, a1), w0)"
    and distinct: "a0 \<noteq> a1"
  shows "xlabel (heap w' a0) = ''Solution (Real)''
       \<and> xlabel (heap w' a1) = ''Solution (Imaginary)''
       \<and> ylabel (heap w' a0) = ''Parameter''
       \<and> ylabel (heap w' a1) = ylabel (heap w0 a1)
       \<and> (axs = None \<longrightarrow> ylabel (heap w' a1) = [])"
proof -
  from plot_homotopy_ok [OF panels run] obtain w1 w2 w3 where
    s1: "draw_ref a0 rzero ppath w0 = (None, w1)" and
    s2: "draw_ref a1 czero ppath w1 = (None, w2)" and
    s3: "draw_paths (a0, a1) ppath xpaths w2 = (None, w3)" and
    s4: "w' = finish (a0, a1) equal w3"
    by auto
  have y: "ylabel (heap w3 a1) = ylabel (heap w0 a1)"
    using draw_ref_frame [of a0 rzero ppath w0 a1] draw_ref_frame [of a1 czero ppath w1 a1]
      draw_paths_frame [of "(a0, a1)" ppath xpaths w2 a1]
    by (simp add: s1 s2 s3)
  have new: "axs = None \<longrightarrow> ylabel (heap w0 a1) = []"
    using panels homotopy_axs_new [of w a0 a1 w0] by (auto simp: new_axes_def)
  from y new distinct show ?thesis
    by (simp add: s4 finish_xlabel finish_ylabel)
qed

theorem homotopy_labels_witness:
  "plot_homotopy demo_ppath demo_xpaths (Some demo_rzero) None True None world0
     = (None, snd homotopy_demo)
   \<and> homotopy_axs None world0 = ((0, 1), snd (homotopy_axs None world0))
   \<and> (0::nat) \<noteq> 1
   \<and> xlabel (heap (snd homotopy_demo) 0) = ''Solution (Real)''
   \<and> xlabel (heap (snd homotopy_demo) 1) = ''Solution (Imaginary)''
   \<and> ylabel (heap (snd homotopy_demo) 0) = ''Parameter''
   \<and> ylabel (heap (snd homotopy_demo) 1) = []"
proof -
  have run: "plot_homotopy demo_ppath demo_xpaths (Some demo_rzero) None True None world0
     = (None, snd homotopy_demo)"
    using homotopy_demo_ok by (simp add: homotopy_demo_def prod_eq_iff)
  have ne: "(0::nat) \<noteq> 1" by simp
  from homotopy_labels [OF run homotopy_demo_panels ne] run homotopy_demo_panels ne
  show ?thesis by blast
qed

text \<open>
  C9. With \<^verbatim>\<open>rzero\<close> and \<^verbatim>\<open>czero\<close> omitted, \<^verbatim>\<open>plot_homotopy\<close> depends on \<^verbatim>\<open>ppath\<close> only
  through \<^verbatim>\<open>ppath.real\<close>: two calls whose parameter paths have the same real parts (and
  are both arrays, or both lists) and that agree on every other argument produce the
  same outcome and the same final state, hence the same drawn curves.
\<close>

theorem homotopy_reads_real_part_of_ppath:
  assumes "real_parts p1 = real_parts p2" and "has_parts p1 = has_parts p2"
  shows "plot_homotopy p1 xpaths None None equal axs w =
         plot_homotopy p2 xpaths None None equal axs w"
  using draw_paths_real_only [OF attr_real_cong [OF assms]]
  by (simp add: plot_homotopy_def draw_ref_def)

theorem homotopy_reads_real_part_of_ppath_witness:
  "real_parts complex_ppath = real_parts demo_ppath
   \<and> has_parts complex_ppath = has_parts demo_ppath
   \<and> complex_ppath \<noteq> demo_ppath
   \<and> plot_homotopy complex_ppath demo_xpaths None None True None world0 =
     plot_homotopy demo_ppath demo_xpaths None None True None world0"
proof -
  have r: "real_parts complex_ppath = real_parts demo_ppath"
    by (simp add: complex_ppath_def demo_ppath_def real_parts_def)
  have h: "has_parts complex_ppath = has_parts demo_ppath"
    by (simp add: complex_ppath_def demo_ppath_def)
  have d: "complex_ppath \<noteq> demo_ppath"
    by (simp add: complex_ppath_def demo_ppath_def)
  from homotopy_reads_real_part_of_ppath [OF r h] r h d show ?thesis by blast
qed

text \<open>
  C8, as stated. A plain Python list as \<^verbatim>\<open>ppath\<close> has no \<^verbatim>\<open>.real\<close>, but with an empty
  \<^verbatim>\<open>xpaths\<close> the loop body never runs and the call returns normally: no AttributeError.
\<close>

theorem homotopy_list_ppath_no_paths_returns:
  "fst (plot_homotopy list_ppath [] None None True None world0) = None"
  by (simp add: plot_homotopy_def homotopy_axs_def plt_subplots2_def draw_ref_def list_ppath_def)

text \<open>
  C8, amended. Take a call to \<^verbatim>\<open>plot_homotopy\<close> on two distinct panels whose reference
  curves, where supplied, are as long as \<^verbatim>\<open>ppath\<close>, and whose \<^verbatim>\<open>xpaths\<close> is
  \<open>pre @ bad # post\<close>, where every entry of \<open>pre\<close> is an array as long as \<^verbatim>\<open>ppath\<close> (and
  \<^verbatim>\<open>ppath\<close> an array, if \<open>pre\<close> is not empty), and \<open>bad\<close> or \<^verbatim>\<open>ppath\<close> has no \<^verbatim>\<open>.real\<close> and
  \<^verbatim>\<open>.imag\<close>. The call raises AttributeError, and at that moment each panel holds what
  it held before, its reference curve if one was supplied, and the solution curves of
  the entries of \<open>pre\<close>: nothing is drawn for \<open>bad\<close> or for \<open>post\<close>.
\<close>

theorem homotopy_attribute_error:
  assumes panels: "homotopy_axs axs w = ((a0, a1), w0)"
    and distinct: "a0 \<noteq> a1"
    and rz: "\<forall>r. rzero = Some r \<longrightarrow> len r = len ppath"
    and cz: "\<forall>r. czero = Some r \<longrightarrow> len r = len ppath"
    and split: "xpaths = pre @ bad # post"
    and good: "\<forall>xp\<in>set pre. has_parts xp \<and> has_parts ppath \<and> len xp = len ppath"
    and bad: "\<not> has_parts bad \<or> \<not> has_parts ppath"
  shows "fst (plot_homotopy ppath xpaths rzero czero equal axs w) = Some AttributeError
       \<and> lines (heap (snd (plot_homotopy ppath xpaths rzero czero equal axs w)) a0) =
           lines (heap w0 a0) @ ref_curve rzero ppath @ map (curve_re ppath) pre
       \<and> lines (heap (snd (plot_homotopy ppath xpaths rzero czero equal axs w)) a1) =
           lines (heap w0 a1) @ ref_curve czero ppath @ map (curve_im ppath) pre"
proof -
  obtain w1 where s1: "draw_ref a0 rzero ppath w0 = (None, w1)"
    using draw_ref_good [OF rz, of a0 w0] by (cases "draw_ref a0 rzero ppath w0") simp
  obtain w2 where s2: "draw_ref a1 czero ppath w1 = (None, w2)"
    using draw_ref_good [OF cz, of a1 w1] by (cases "draw_ref a1 czero ppath w1") simp
  obtain w3 where s3: "draw_paths (a0, a1) ppath pre w2 = (None, w3)"
    using draw_paths_good [OF good, of "(a0, a1)" w2]
    by (cases "draw_paths (a0, a1) ppath pre w2") simp
  have loop: "draw_paths (a0, a1) ppath xpaths w2 = (Some AttributeError, w3)"
    unfolding split draw_paths_append s3 using draw_paths_Cons_bad [OF bad] by simp
  have run: "plot_homotopy ppath xpaths rzero czero equal axs w = (Some AttributeError, w3)"
    unfolding plot_homotopy_steps [OF panels] by (simp add: s1 s2 loop)
  from draw_paths_lines [OF s3 distinct] draw_ref_lines [OF s2] draw_ref_lines [OF s1] distinct
  show ?thesis by (simp add: run)
qed

theorem homotopy_attribute_error_witness:
  "homotopy_axs None world0 = ((0, 1), snd (homotopy_axs None world0))
   \<and> (0::nat) \<noteq> 1
   \<and> len demo_rzero = len demo_ppath
   \<and> mixed_xpaths = [hd mixed_xpaths] @ (mixed_xpaths ! 1) # [mixed_xpaths ! 2]
   \<and> has_parts (hd mixed_xpaths) \<and> has_parts demo_ppath
   \<and> len (hd mixed_xpaths) = len demo_ppath
   \<and> \<not> has_parts (mixed_xpaths ! 1)
   \<and> fst (plot_homotopy demo_ppath mixed_xpaths (Some demo_rzero) None True None world0)
       = Some AttributeError
   \<and> lines (heap (snd (plot_homotopy demo_ppath mixed_xpaths (Some demo_rzero) None True None
         world0)) 0) =
       lines (heap (snd (homotopy_axs None world0)) 0) @ ref_curve (Some demo_rzero) demo_ppath
         @ map (curve_re demo_ppath) [hd mixed_xpaths]
   \<and> lines (heap (snd (plot_homotopy demo_ppath mixed_xpaths (Some demo_rzero) None True None
         world0)) 1) =
       lines (heap (snd (homotopy_axs None world0)) 1) @ ref_curve None demo_ppath
         @ map (curve_im demo_ppath) [hd mixed_xpaths]"
proof -
  have ne: "(0::nat) \<noteq> 1" by simp
  have rz: "\<forall>r. Some demo_rzero = Some r \<longrightarrow> len r = len demo_ppath"
    by (simp add: demo_rzero_def demo_ppath_def len_def)
  have cz: "\<forall>r. (None :: pyval option) = Some r \<longrightarrow> len r = len demo_ppath"
    by simp
  have sp: "mixed_xpaths = [hd mixed_xpaths] @ (mixed_xpaths ! 1) # [mixed_xpaths ! 2]"
    by (simp add: mixed_xpaths_def)
  have good: "\<forall>xp\<in>set [hd mixed_xpaths].
         has_parts xp \<and> has_parts demo_ppath \<and> len xp = len demo_ppath"
    by (simp add: mixed_xpaths_def demo_ppath_def len_def)
  have bad: "\<not> has_parts (mixed_xpaths ! 1) \<or> \<not> has_parts demo_ppath"
    by (simp add: mixed_xpaths_def)
  have facts: "len demo_rzero = len demo_ppath" "has_parts (hd mixed_xpaths)"
    "has_parts demo_ppath" "len (hd mixed_xpaths) = len demo_ppath"
    "\<not> has_parts (mixed_xpaths ! 1)"
    by (simp_all add: mixed_xpaths_def demo_ppath_def demo_rzero_def len_def)
  from homotopy_attribute_error [OF homotopy_demo_panels ne rz cz sp good bad]
    homotopy_demo_panels ne sp facts
  show ?thesis by blast
qed







text \<open>
  C5. For every call to \<^verbatim>\<open>plot\<close>, returning or raising: with a surface supplied, no figure
  and no axes is created and every axes other than the supplied one is left exactly as
  it was; with none supplied, exactly one figure with exactly one axes is created and
  every axes that existed before is left exactly as it was.
\<close>

theorem plot_surface_use:
  "(\<forall>a. ax = Some a \<longrightarrow>
       nfig (snd (plot gx sc f x0 x1 N ax zero kw w)) = nfig w
     \<and> nax (snd (plot gx sc f x0 x1 N ax zero kw w)) = nax w
     \<and> (\<forall>b. b \<noteq> a \<longrightarrow> heap (snd (plot gx sc f x0 x1 N ax zero kw w)) b = heap w b))
   \<and> (ax = None \<longrightarrow>
       nfig (snd (plot gx sc f x0 x1 N ax zero kw w)) = nfig w + 1
     \<and> nax (snd (plot gx sc f x0 x1 N ax zero kw w)) = nax w + 1
     \<and> (\<forall>b. b \<noteq> nax w \<longrightarrow> heap (snd (plot gx sc f x0 x1 N ax zero kw w)) b = heap w b))"
proof (cases ax)
  case None
  have p: "plot_ax ax w = (nax w, snd (plt_subplots w))"
    by (simp add: None plot_ax_def plt_subplots_def)
  from plot_frame [OF p] None show ?thesis
    by (simp add: plt_subplots_def)
next
  case (Some a)
  have p: "plot_ax ax w = (a, w)"
    by (simp add: Some plot_ax_def)
  from plot_frame [OF p] Some show ?thesis
    by simp
qed

theorem plot_surface_use_witness:
  "nfig (snd (plot data_xlim known_style square_fn (- 1) 1 5 (Some 0) (Some 0) [] world1)) = nfig world1
   \<and> nax (snd (plot data_xlim known_style square_fn (- 1) 1 5 (Some 0) (Some 0) [] world1)) = nax world1
   \<and> heap (snd (plot data_xlim known_style square_fn (- 1) 1 5 (Some 0) (Some 0) [] world1)) 1
       = heap world1 1
   \<and> length (lines (heap (snd (plot data_xlim known_style square_fn (- 1) 1 5 (Some 0) (Some 0) []
        world1)) 0)) = 1
   \<and> nfig (snd (plot data_xlim known_style square_fn (- 1) 1 5 None (Some 0) [] world1)) = nfig world1 + 1
   \<and> nax (snd (plot data_xlim known_style square_fn (- 1) 1 5 None (Some 0) [] world1)) = nax world1 + 1
   \<and> heap (snd (plot data_xlim known_style square_fn (- 1) 1 5 None (Some 0) [] world1)) 0
       = heap world1 0
   \<and> nax world1 = 1"
proof -
  have n1: "nax world1 = 1"
    by (simp add: world1_def plt_subplots_def world0_def)
  have drawn: "length (lines (heap (snd (plot data_xlim known_style square_fn (- 1) 1 5 (Some 0) (Some 0) []
        world1)) 0)) = 1"
    by (simp add: plot_def ax_plot_kw_def known_style_def plot_ax_def plt_subplots_def linspace_def
        square_pts_5 ax_plot_def ax_hlines_def len_def grid_5
        world1_def world0_def new_axes_def)
  from plot_surface_use [of "Some 0" data_xlim known_style square_fn "- 1" 1 5 "Some 0" "[]" world1]
    plot_surface_use [of None data_xlim known_style square_fn "- 1" 1 5 "Some 0" "[]" world1]
    n1 drawn
  show ?thesis by simp
qed

end
